theory Spec2Isabelle
  imports Main "HOL-Library.Word"
begin

section \<open>JavaScript strings\<close>

text \<open>
  A JavaScript string is a sequence of UTF-16 code units; \<open>length\<close>, \<open>startsWith\<close>,
  \<open>split\<close> and \<open>trim\<close> all work on code units.  \<open>js\<close> writes an ASCII literal.
\<close>

type_synonym js_string = "16 word list"

definition js :: "string \<Rightarrow> js_string" where
  "js s = map of_char s"

text \<open>
  The code units of ECMAScript's WhiteSpace and LineTerminator productions: what
  \<open>String.prototype.trim\<close> strips and what \<open>\s\<close> matches in a regular expression.
\<close>

definition isWhiteSpace :: "16 word \<Rightarrow> bool" where
  "isWhiteSpace c \<longleftrightarrow>
     c = 0x0009 \<or> c = 0x000A \<or> c = 0x000B \<or> c = 0x000C \<or> c = 0x000D \<or> c = 0x0020 \<or>
     c = 0x00A0 \<or> c = 0x1680 \<or> (0x2000 \<le> c \<and> c \<le> 0x200A) \<or> c = 0x2028 \<or> c = 0x2029 \<or>
     c = 0x202F \<or> c = 0x205F \<or> c = 0x3000 \<or> c = 0xFEFF"

definition trim :: "js_string \<Rightarrow> js_string" where
  "trim s = rev (dropWhile isWhiteSpace (rev (dropWhile isWhiteSpace s)))"

definition startsWith :: "js_string \<Rightarrow> js_string \<Rightarrow> bool" where
  "startsWith s p \<longleftrightarrow> take (length p) s = p"

definition endsWith :: "js_string \<Rightarrow> js_string \<Rightarrow> bool" where
  "endsWith s p \<longleftrightarrow> length p \<le> length s \<and> drop (length s - length p) s = p"

text \<open>Truthiness of a possibly undefined string: \<open>undefined\<close> and \<open>""\<close> are falsy.\<close>

definition truthy_string :: "js_string option \<Rightarrow> bool" where
  "truthy_string x = (case x of None \<Rightarrow> False | Some s \<Rightarrow> s \<noteq> [])"

text \<open>Truthiness of a possibly undefined number: \<open>undefined\<close> and \<open>0\<close> are falsy.\<close>

definition truthy_number :: "int option \<Rightarrow> bool" where
  "truthy_number x = (case x of None \<Rightarrow> False | Some n \<Rightarrow> n \<noteq> 0)"


section \<open>Protocol data\<close>

text \<open>\<open>NostrEvent\<close>: the plain event object that is hashed, signed and serialised.\<close>

record nostr_event =
  kind :: int
  pubkey :: js_string
  created_at :: int
  tags :: "js_string list list"
  content :: js_string
  id' :: "js_string option"
  sig :: "js_string option"

text \<open>
  The JSON body of an HTTP response, read by field name.  The LNURL-pay descriptor
  (\<open>callback\<close>, \<open>minSendable\<close>, \<open>maxSendable\<close>, \<open>allowsNostr\<close>, \<open>nostrPubkey\<close>) and the
  zap endpoint's answer (\<open>status\<close>, \<open>pr\<close>, \<open>verify\<close>, \<open>successAction\<close>) are both such
  bodies; a field that is absent is \<open>None\<close> (\<open>False\<close> for the flag).
\<close>

record json_body =
  callback :: "js_string option"
  minSendable :: "int option"
  maxSendable :: "int option"
  allowsNostr :: bool
  nostrPubkey :: "js_string option"
  status :: "js_string option"
  pr :: "js_string option"
  verify :: "js_string option"
  successAction :: "js_string option"


section \<open>Errors\<close>

text \<open>
  Every value the code throws.  \<open>Error\<close> is \<open>new Error(message)\<close>; \<open>TypeError\<close> is what
  the platform throws (an invalid URL, a property read on \<open>undefined\<close>); the others are
  the classes of \<open>nostrErrors\<close> with their constructor arguments.
\<close>

datatype error =
    Error js_string
  | TypeError js_string
  | NostrUnknownUserError js_string
  | NostrRequestLnurlPayError nostr_event error
  | NostrGetZapEndpointCallbackUrlError nostr_event json_body
  | NostrMinSendableConstraintError int int
  | NostrMaxSendableConstraintError int int
  | NostrCallZapEndpointError "json_body option"
  | NostrInvoiceNotFoundError "json_body option"


section \<open>Effects\<close>

text \<open>
  Every call that leaves the client is recorded, in order, in a log.  A collaborator is
  an oracle: its answer is a function of its arguments and of the log so far, so the same
  call may be answered differently the second time.
\<close>

datatype call =
    BlockUntilReady nat
  | NdkConnect
  | SignerUser
  | FetchProfile js_string
  | NdkGetUser js_string
  | FromNip05 js_string
  | Unixtime
  | Sign nostr_event
  | HttpGet "js_string option"
  | FetchEvent js_string
  | FetchEvents int js_string
  | CalculateZapsAmount js_string
  | RepositoryFetchProfile js_string
  | Delay nat

type_synonym log = "call list"


section \<open>The retry wrapper\<close>

definition FetchTimeout :: nat where "FetchTimeout = 1000"
definition MaxRetries :: nat where "MaxRetries = 3"
definition RetryDelay :: nat where "RetryDelay = 100"

text \<open>
  What one invocation of the wrapped operation does within \<open>FetchTimeout\<close>
  milliseconds: its promise resolves, rejects, or is still pending when the timer fires.
\<close>

datatype 'a outcome = Resolved 'a | Rejected error | Pending

text \<open>\<open>delay(ms)\<close>: a timer that the caller awaits.\<close>

definition delay :: "nat \<Rightarrow> log \<Rightarrow> log" where
  "delay ms l = l @ [Delay ms]"

text \<open>
  \<open>fetchWithTimeout\<close>: the race between the operation and the timer, whose rejection
  is \<open>new Error('Operation timeout')\<close>.
\<close>

definition fetchWithTimeout :: "'a outcome \<Rightarrow> error + 'a" where
  "fetchWithTimeout out =
     (case out of
        Resolved v \<Rightarrow> Inr v
      | Rejected e \<Rightarrow> Inl e
      | Pending \<Rightarrow> Inl (Error (js ''Operation timeout'')))"

function fetchWithRetry ::
  "(log \<Rightarrow> 'a outcome \<times> log) \<Rightarrow> nat \<Rightarrow> log \<Rightarrow> (error + 'a) \<times> log" where
  "fetchWithRetry operation retries l =
     (case operation l of
        (out, l1) \<Rightarrow>
          (case fetchWithTimeout out of
             Inr v \<Rightarrow> (Inr v, l1)
           | Inl error \<Rightarrow>
               if retries < MaxRetries - 1
               then fetchWithRetry operation (retries + 1) (delay RetryDelay l1)
               else (Inl error, l1)))"
  by pat_completeness auto
termination
  by (relation "measure (\<lambda>(operation, retries, l). MaxRetries - retries)")
     (auto simp: MaxRetries_def)

text \<open>
  An operation as a test double sees it: invocation number \<open>k\<close> (counted from 0 by the
  entries \<open>c\<close> already in the log) has the outcome \<open>script k\<close> and leaves the entry \<open>c\<close>.
\<close>

definition scripted :: "call \<Rightarrow> (nat \<Rightarrow> 'a outcome) \<Rightarrow> log \<Rightarrow> 'a outcome \<times> log" where
  "scripted c script l = (script (count_list l c), l @ [c])"

text \<open>The errors of the code that carry another error as their cause.\<close>

fun cause :: "error \<Rightarrow> error option" where
  "cause (NostrRequestLnurlPayError metadata e) = Some e"
| "cause _ = None"

text \<open>
  Two scripts: two rejections and then a value, and a rejection every time (each with its
  own message, so that the attempts can be told apart).
\<close>

fun fails_twice :: "nat \<Rightarrow> nat outcome" where
  "fails_twice k = (if k < 2 then Rejected (Error (js ''relay down'')) else Resolved 7)"

fun fails_always :: "nat \<Rightarrow> nat outcome" where
  "fails_always k =
     (if k = 0 then Rejected (Error (js ''first''))
      else if k = 1 then Pending
      else Rejected (Error (js ''third'')))"


section \<open>Promises and collaborators\<close>

text \<open>
  An asynchronous function takes the log and gives the outcome of its promise and the
  log it leaves.  \<open>Pending\<close> is a promise that does not settle for as long as its caller
  waits: the retry wrapper stops waiting at \<open>FetchTimeout\<close>, every other caller waits
  for good.  \<open>bind m f\<close> is \<open>x = await m; f(x)\<close>.
\<close>

type_synonym 'a async = "log \<Rightarrow> 'a outcome \<times> log"

definition bind :: "'a async \<Rightarrow> ('a \<Rightarrow> 'b async) \<Rightarrow> 'b async" where
  "bind m f l =
     (case m l of
        (Resolved x, l1) \<Rightarrow> f x l1
      | (Rejected e, l1) \<Rightarrow> (Rejected e, l1)
      | (Pending, l1) \<Rightarrow> (Pending, l1))"

definition resolve :: "'a \<Rightarrow> 'a async" where
  "resolve x l = (Resolved x, l)"

definition reject :: "error \<Rightarrow> 'a async" where
  "reject e l = (Rejected e, l)"

text \<open>A synchronous computation that may throw, run inside an asynchronous function.\<close>

definition run_sync :: "error + 'a \<Rightarrow> 'a async" where
  "run_sync r l = (case r of Inl e \<Rightarrow> (Rejected e, l) | Inr x \<Rightarrow> (Resolved x, l))"

text \<open>
  A call to a collaborator: the oracle answers from the log so far, and the call is
  recorded.
\<close>

definition ask :: "call \<Rightarrow> (log \<Rightarrow> 'a outcome) \<Rightarrow> 'a async" where
  "ask c oracle l = (oracle l, l @ [c])"

text \<open>\<open>xs[i]\<close> of JavaScript: \<open>undefined\<close> out of range.\<close>

definition nth_opt :: "'a list \<Rightarrow> nat \<Rightarrow> 'a option" where
  "nth_opt xs i = (if i < length xs then Some (xs ! i) else None)"

text \<open>\<open>NDKUser\<close>: the fields the code reads; \<open>fetchProfile\<close> stores the profile in it.\<close>

record ndk_user =
  npub :: js_string
  user_pubkey :: js_string
  profile :: "js_string option"

text \<open>
  The NDK library and the NIP-07 signer.  None of it is code of this repository; each
  function is a parameter.
\<close>

record ndk =
  blockUntilReady :: "nat \<Rightarrow> log \<Rightarrow> unit outcome"
  ndk_connect :: "js_string list \<Rightarrow> nat \<Rightarrow> log \<Rightarrow> unit outcome"
  signer_user :: "log \<Rightarrow> ndk_user outcome"
  signer_sign :: "nostr_event \<Rightarrow> log \<Rightarrow> js_string outcome"
  user_fetchProfile :: "js_string \<Rightarrow> log \<Rightarrow> js_string option outcome"
  ndk_getUser :: "js_string \<Rightarrow> error + ndk_user"
  fromNip05 :: "js_string \<Rightarrow> log \<Rightarrow> ndk_user option outcome"

text \<open>
  The platform: \<open>axios.get\<close> (the \<open>data\<close> of the response), \<open>JSON.stringify\<close> of an
  event and of \<open>{ lud16 }\<close>, \<open>JSON.parse(...).lud16\<close>, \<open>encodeURI\<close> (applied to the
  output of \<open>JSON.stringify\<close> only, which holds no lone surrogate, so it does not throw),
  and \<open>new URL(base)\<close> followed by \<open>searchParams.append\<close> of each pair and
  \<open>toString\<close>, a \<open>TypeError\<close> when \<open>base\<close> is no URL; \<open>new URL(url).pathname\<close>,
  \<open>None\<close> when the constructor throws its \<open>TypeError\<close>; and the Unicode property
  \<open>\p{Emoji}\<close> of the code point of a string of one code unit (the \<open>u\<close> flag).
\<close>

record platform =
  axios_get :: "js_string option \<Rightarrow> log \<Rightarrow> json_body option outcome"
  JSON_stringify :: "nostr_event \<Rightarrow> js_string"
  JSON_stringify_lud16 :: "js_string \<Rightarrow> js_string"
  JSON_parse_lud16 :: "js_string \<Rightarrow> error + js_string option"
  encodeURI :: "js_string \<Rightarrow> js_string"
  URL_append :: "js_string \<Rightarrow> (js_string \<times> js_string) list \<Rightarrow> error + js_string"
  URL_pathname :: "js_string \<Rightarrow> js_string option"
  Emoji :: "16 word \<Rightarrow> bool"

text \<open>
  Modelled from the spec: \<open>generateEventId\<close> and \<open>unixtime\<close> of \<open>nostr/utils\<close> and
  \<open>toLnurlPayUrl\<close> and \<open>toBech32EncodedLnurl\<close> of \<open>nostr/lnurlPay\<close> are not among the
  sources.  The id is "a deterministic hash of the canonical serialization" of the
  event's fields: a function of the event.  \<open>unixtime\<close> reads the clock.  The two LNURL
  helpers are functions of their argument that may return \<open>undefined\<close> or throw.
\<close>

record utils =
  generateEventId :: "nostr_event \<Rightarrow> js_string"
  unixtime :: "log \<Rightarrow> int"
  toLnurlPayUrl :: "js_string option \<Rightarrow> error + js_string option"
  toBech32EncodedLnurl :: "js_string option \<Rightarrow> error + js_string"


section \<open>Numbers as strings\<close>

text \<open>
  \<open>Number.prototype.toString\<close> on an integer: decimal digits and a minus sign.  (Exact
  below \<open>10^21\<close>, where JavaScript changes to exponent notation.)
\<close>

fun digits :: "nat \<Rightarrow> js_string" where
  "digits n = (if n < 10 then [of_nat (48 + n)] else digits (n div 10) @ [of_nat (48 + n mod 10)])"

definition Number_toString :: "int \<Rightarrow> js_string" where
  "Number_toString n = (if n < 0 then js ''-'' @ digits (nat (- n)) else digits (nat n))"







section \<open>NostrClient\<close>

definition LoginTimeoutMSec :: nat where "LoginTimeoutMSec = 60000"

definition Relays :: "js_string list" where
  "Relays = [js ''wss://relay.hakua.xyz'', js ''wss://relay.damus.io'', js ''wss://relay.nostr.band'']"

text \<open>\<open>NDKKind.ZapRequest\<close>.\<close>

definition ZapRequest :: int where "ZapRequest = 9734"

text \<open>
  A \<open>NostrClient\<close>: the NDK instance (the relays it was built with; the signer is part
  of \<open>ndk\<close>) and the logged-in user.
\<close>

record client =
  explicitRelayUrls :: "js_string list"
  user :: ndk_user

text \<open>
  \<open>connect\<close> is an \<open>async\<close> function: it runs until its next \<open>await\<close>, and other code,
  another call of \<open>connect\<close> among it, may run before it is resumed.  A call is therefore a
  value that says where it is waiting, with the outcome of the promise it waits for:
  \<^item> not started yet;
  \<^item> after \<open>signer.blockUntilReady()\<close> was called (lines 63-64);
  \<^item> after \<open>ndk.connect(1)\<close> was called (lines 66-71; \<open>ndk.assertSigner()\<close> does not
    throw: the signer was given to the constructor the line before);
  \<^item> after \<open>ndk.signer.user()\<close> was called (line 72);
  \<^item> after \<open>user.fetchProfile()\<close> was called (line 73), holding the user;
  \<^item> settled: the client it returned or the error it threw.
\<close>

datatype connect_call =
    NotStarted
  | AwaitBlockUntilReady "unit outcome"
  | AwaitNdkConnect "unit outcome"
  | AwaitSignerUser "ndk_user outcome"
  | AwaitFetchProfile ndk_user "js_string option outcome"
  | Settled "error + client"

text \<open>
  \<open>connect\<close>, one stretch of it: from where the call waits to its next \<open>await\<close> or its
  end.  The static field \<open>#nostrClient\<close> is the state: it is read in the first stretch
  (line 59) and written in the last (line 74).  A call that waits for a promise that is
  still pending stays where it is.
\<close>

fun connect_step ::
  "ndk \<Rightarrow> connect_call \<Rightarrow> client option \<Rightarrow> log \<Rightarrow> connect_call \<times> client option \<times> log" where
  "connect_step N NotStarted nostrClient l =
     (case nostrClient of
        Some c \<Rightarrow> (Settled (Inr c), nostrClient, l)
      | None \<Rightarrow>
          (AwaitBlockUntilReady (blockUntilReady N LoginTimeoutMSec l), nostrClient,
           l @ [BlockUntilReady LoginTimeoutMSec]))"
| "connect_step N (AwaitBlockUntilReady out) nostrClient l =
     (case out of
        Resolved _ \<Rightarrow> (AwaitNdkConnect (ndk_connect N Relays 1 l), nostrClient, l @ [NdkConnect])
      | Rejected e \<Rightarrow> (Settled (Inl e), nostrClient, l)
      | Pending \<Rightarrow> (AwaitBlockUntilReady out, nostrClient, l))"
| "connect_step N (AwaitNdkConnect out) nostrClient l =
     (case out of
        Resolved _ \<Rightarrow> (AwaitSignerUser (signer_user N l), nostrClient, l @ [SignerUser])
      | Rejected e \<Rightarrow> (Settled (Inl e), nostrClient, l)
      | Pending \<Rightarrow> (AwaitNdkConnect out, nostrClient, l))"
| "connect_step N (AwaitSignerUser out) nostrClient l =
     (case out of
        Resolved u \<Rightarrow>
          (AwaitFetchProfile u (user_fetchProfile N (npub u) l), nostrClient,
           l @ [FetchProfile (npub u)])
      | Rejected e \<Rightarrow> (Settled (Inl e), nostrClient, l)
      | Pending \<Rightarrow> (AwaitSignerUser out, nostrClient, l))"
| "connect_step N (AwaitFetchProfile u out) nostrClient l =
     (case out of
        Resolved p \<Rightarrow>
          (let c = \<lparr>explicitRelayUrls = Relays, user = u\<lparr>profile := p\<rparr>\<rparr>
           in (Settled (Inr c), Some c, l))
      | Rejected e \<Rightarrow> (Settled (Inl e), nostrClient, l)
      | Pending \<Rightarrow> (AwaitFetchProfile u out, nostrClient, l))"
| "connect_step N (Settled r) nostrClient l = (Settled r, nostrClient, l)"

text \<open>
  Several calls of \<open>connect\<close> in one program.  The schedule names, stretch by stretch,
  the call that runs next; a call that was not started starts with its first stretch.
\<close>

fun run_connects ::
  "ndk \<Rightarrow> nat list \<Rightarrow> connect_call list \<Rightarrow> client option \<Rightarrow> log
     \<Rightarrow> connect_call list \<times> client option \<times> log" where
  "run_connects N [] calls nostrClient l = (calls, nostrClient, l)"
| "run_connects N (i # schedule) calls nostrClient l =
     (if i < length calls
      then (case connect_step N (calls ! i) nostrClient l of
              (c, nostrClient1, l1) \<Rightarrow> run_connects N schedule (calls[i := c]) nostrClient1 l1)
      else run_connects N schedule calls nostrClient l)"

definition getUser :: "ndk \<Rightarrow> js_string \<Rightarrow> ndk_user async" where
  "getUser N npub' =
     (if length npub' \<noteq> 63 \<or> \<not> startsWith npub' (js ''npub'')
      then reject (Error (js ''Invalid npub: '' @ npub'))
      else (\<lambda>l. run_sync (ndk_getUser N npub') (l @ [NdkGetUser npub'])))"

definition getUserWithProfile :: "ndk \<Rightarrow> js_string \<Rightarrow> ndk_user async" where
  "getUserWithProfile N npub' =
     (if length npub' \<noteq> 63 \<or> \<not> startsWith npub' (js ''npub'')
      then reject (Error (js ''Invalid npub: '' @ npub'))
      else bind (\<lambda>l. run_sync (ndk_getUser N npub') (l @ [NdkGetUser npub']))
             (\<lambda>u. bind (\<lambda>l. case fetchWithRetry
                                 (ask (FetchProfile (npub u)) (user_fetchProfile N (npub u))) 0 l of
                               (r, l1) \<Rightarrow> run_sync r l1)
             (\<lambda>p. resolve (u\<lparr>profile := p\<rparr>))))"

definition getLoggedInUser :: "client \<Rightarrow> ndk_user async" where
  "getLoggedInUser c = resolve (user c)"


section \<open>Zaps\<close>

definition makeZapRequest ::
  "ndk \<Rightarrow> utils \<Rightarrow> client \<Rightarrow> js_string \<Rightarrow> int \<Rightarrow> nostr_event async" where
  "makeZapRequest N U this nip05Id msat =
     bind (ask (FromNip05 nip05Id) (fromNip05 N nip05Id))
       (\<lambda>to. case to of
          None \<Rightarrow> reject (NostrUnknownUserError nip05Id)
        | Some to \<Rightarrow>
            bind (ask Unixtime (\<lambda>l. Resolved (unixtime U l)))
              (\<lambda>now. bind (run_sync (toLnurlPayUrl U (Some nip05Id)))
              (\<lambda>url. bind (run_sync (toBech32EncodedLnurl U url))
              (\<lambda>lnurl.
                 let unsignedEvent =
                       \<lparr>kind = ZapRequest,
                        pubkey = user_pubkey (user this),
                        created_at = now,
                        tags = [js ''relays'' # Relays,
                                [js ''amount'', Number_toString msat],
                                [js ''lnurl'', lnurl],
                                [js ''p'', user_pubkey to]],
                        content = js ''zap request'',
                        id' = None,
                        sig = None\<rparr>;
                     eventId = generateEventId U unsignedEvent
                 in resolve (unsignedEvent\<lparr>tags := tags unsignedEvent @ [[js ''e'', eventId]]\<rparr>)))))"






section \<open>NoteService\<close>

text \<open>
  \<open>NDKEvent\<close>: the fields the service reads, and the plain event \<open>rawEvent()\<close> returns.
\<close>

record ndk_event =
  ev_id :: js_string
  ev_author :: ndk_user
  ev_content :: js_string
  ev_tags :: "js_string list list"
  ev_created_at :: "int option"
  rawEvent :: nostr_event

datatype media_type = image | video | youtube

record media =
  media_type :: media_type
  url :: js_string

record NoteReactions =
  likesCount :: nat
  repostsCount :: nat
  zapsAmount :: int
  customReactions :: "js_string \<rightharpoonup> nat"

text \<open>The \<open>User\<close> entity; its profile is whatever the profile repository returned.\<close>

record User =
  User_npub :: js_string
  User_pubkey :: js_string
  User_profile :: "js_string option"

text \<open>The \<open>Note\<close> entity; \<open>created_at\<close> in milliseconds since the epoch.\<close>

datatype Note =
  Note (note_id: js_string) (author: User) (note_text: js_string) (note_media: "media list")
       (json: js_string) (replyParentNote: "Note option") (replyChildNotes: "Note list")
       (reactions: NoteReactions) (note_created_at: int)

text \<open>
  The collaborators of the service: the profile repository, and the relay client.
  \<open>fetchEvent\<close> is \<open>NostrClient.fetchEvent\<close>, which hands the call to NDK and rethrows.

  Modelled from the spec: \<open>NostrClient.fetchEvents\<close> and
  \<open>NostrClient.calculateZapsAmount\<close> are called by the service but are not in the
  \<open>nostrClient.ts\<close> of the sources.  \<open>fetchEvents(filter)\<close> "resolves the full set of
  events matching filter from all connected relays, deduplicated by id" (here by the kind
  and the \<open>#e\<close> id of the filter); the zap amounts are summed by "a relay-provided
  aggregation collaborator".
\<close>

record services =
  fetchProfile :: "js_string \<Rightarrow> log \<Rightarrow> js_string option outcome"
  fetchEvent :: "js_string \<Rightarrow> log \<Rightarrow> ndk_event option outcome"
  fetchEvents :: "int \<Rightarrow> js_string \<Rightarrow> log \<Rightarrow> ndk_event list outcome"
  calculateZapsAmount :: "js_string \<Rightarrow> log \<Rightarrow> int outcome"

text \<open>\<open>NDKKind.Reaction\<close> and \<open>NDKKind.Repost\<close>.\<close>

definition Reaction :: int where "Reaction = 7"
definition Repost :: int where "Repost = 6"

definition imageExtensions :: "js_string list" where
  "imageExtensions = [js ''jpg'', js ''jpeg'', js ''png'', js ''gif'', js ''webp'', js ''svg'']"

definition videoExtensions :: "js_string list" where
  "videoExtensions = [js ''mp4'', js ''webm'', js ''ogg'', js ''mov'', js ''avi'']"

text \<open>\<open>s.split(sep)\<close> for a separator of one code unit.\<close>

fun split_str :: "16 word \<Rightarrow> js_string \<Rightarrow> js_string list" where
  "split_str sep [] = [[]]"
| "split_str sep (c # cs) =
     (if c = sep then [] # split_str sep cs
      else (case split_str sep cs of p # ps \<Rightarrow> (c # p) # ps | [] \<Rightarrow> [[c]]))"

text \<open>
  \<open>toLowerCase\<close> on the letters A to Z.  It is applied to a piece of the pathname of a
  parsed URL, which is percent-encoded ASCII.  (Beyond ASCII, the only code unit that
  lowers to ASCII letters alone is U+212A KELVIN SIGN, to \<open>k\<close>, a letter of no listed
  extension.)
\<close>

definition toLowerCase :: "js_string \<Rightarrow> js_string" where
  "toLowerCase s = map (\<lambda>c. if 0x41 \<le> c \<and> c \<le> 0x5A then c + 0x20 else c) s"

definition getUrlExtension :: "platform \<Rightarrow> js_string \<Rightarrow> error + js_string option" where
  "getUrlExtension P url' =
     (case URL_pathname P url' of
        None \<Rightarrow> Inl (TypeError (js ''Invalid URL''))
      | Some pathname \<Rightarrow>
          let parts = split_str 0x2E pathname
          in Inr (if length parts > 1 then Some (toLowerCase (last parts)) else None))"

definition isImageUrl :: "platform \<Rightarrow> js_string \<Rightarrow> error + bool" where
  "isImageUrl P url' =
     (case getUrlExtension P url' of
        Inl e \<Rightarrow> Inl e
      | Inr extension \<Rightarrow>
          Inr (if truthy_string extension then the extension \<in> set imageExtensions else False))"

definition isVideoUrl :: "platform \<Rightarrow> js_string \<Rightarrow> error + bool" where
  "isVideoUrl P url' =
     (case getUrlExtension P url' of
        Inl e \<Rightarrow> Inl e
      | Inr extension \<Rightarrow>
          Inr (if truthy_string extension then the extension \<in> set videoExtensions else False))"

text \<open>
  Regular expressions: a pattern maps a string to the remainders it can leave after
  matching a prefix, the preferred match first.  \<open>re_test\<close> tries every start position.
\<close>

type_synonym pattern = "js_string \<Rightarrow> js_string list"

definition re_lit :: "js_string \<Rightarrow> pattern" where
  "re_lit p s = (if startsWith s p then [drop (length p) s] else [])"

definition re_seq :: "pattern \<Rightarrow> pattern \<Rightarrow> pattern" where
  "re_seq a b s = concat (map b (a s))"

definition re_alt :: "pattern \<Rightarrow> pattern \<Rightarrow> pattern" where
  "re_alt a b s = a s @ b s"

definition re_opt :: "pattern \<Rightarrow> pattern" where
  "re_opt a s = a s @ [s]"

text \<open>\<open>[...]+\<close> for a class of code units: one or more, the longest run first.\<close>

definition re_plus :: "(16 word \<Rightarrow> bool) \<Rightarrow> pattern" where
  "re_plus cls s = map (\<lambda>k. drop k s) (rev [1..<Suc (length (takeWhile cls s))])"

definition re_test :: "pattern \<Rightarrow> js_string \<Rightarrow> bool" where
  "re_test a s = list_ex (\<lambda>k. a (drop k s) \<noteq> []) [0..<Suc (length s)]"

text \<open>The class \<open>[\w-]\<close>: letters, digits, the underscore and the hyphen.\<close>

definition word_or_hyphen :: "16 word \<Rightarrow> bool" where
  "word_or_hyphen c \<longleftrightarrow>
     (0x41 \<le> c \<and> c \<le> 0x5A) \<or> (0x61 \<le> c \<and> c \<le> 0x7A) \<or> (0x30 \<le> c \<and> c \<le> 0x39) \<or>
     c = 0x5F \<or> c = 0x2D"

definition isYouTubeUrl :: "js_string \<Rightarrow> bool" where
  "isYouTubeUrl url' =
     re_test (re_seq (re_opt (re_seq (re_lit (js ''http'')) (re_seq (re_opt (re_lit (js ''s''))) (re_lit (js ''://'')))))
          (re_seq (re_opt (re_lit (js ''www.'')))
          (re_seq (re_alt (re_lit (js ''youtube.com'')) (re_lit (js ''youtu.be'')))
          (re_seq (re_lit (js ''/''))
          (re_seq (re_opt (re_lit (js ''watch?v='')))
               (re_plus word_or_hyphen)))))) url'"

text \<open>
  \<open>content.match(/(https?:\/\/[^\s]+)/g) || []\<close>: the matches from left to right, each
  search starting where the match before ended.  \<open>urlPattern_at s\<close> is the length of the
  match at the start of \<open>s\<close>.
\<close>

definition urlPattern_at :: "js_string \<Rightarrow> nat option" where
  "urlPattern_at s =
     (if startsWith s (js ''https://'') \<and> takeWhile (\<lambda>c. \<not> isWhiteSpace c) (drop 8 s) \<noteq> []
      then Some (8 + length (takeWhile (\<lambda>c. \<not> isWhiteSpace c) (drop 8 s)))
      else if startsWith s (js ''http://'') \<and> takeWhile (\<lambda>c. \<not> isWhiteSpace c) (drop 7 s) \<noteq> []
      then Some (7 + length (takeWhile (\<lambda>c. \<not> isWhiteSpace c) (drop 7 s)))
      else None)"

function match_urlPattern :: "js_string \<Rightarrow> js_string list" where
  "match_urlPattern s =
     (if s = [] then []
      else (case urlPattern_at s of
              Some n \<Rightarrow> take n s # match_urlPattern (drop n s)
            | None \<Rightarrow> match_urlPattern (tl s)))"
  by pat_completeness auto
termination
  by (relation "measure length")
     (auto simp: urlPattern_at_def split: if_splits)

fun extractMedia_loop :: "platform \<Rightarrow> js_string list \<Rightarrow> media list \<Rightarrow> error + media list" where
  "extractMedia_loop P [] media = Inr media"
| "extractMedia_loop P (url' # matches) media =
     (case isImageUrl P url' of
        Inl e \<Rightarrow> Inl e
      | Inr True \<Rightarrow> extractMedia_loop P matches (media @ [\<lparr>media_type = image, url = url'\<rparr>])
      | Inr False \<Rightarrow>
          (case isVideoUrl P url' of
             Inl e \<Rightarrow> Inl e
           | Inr True \<Rightarrow> extractMedia_loop P matches (media @ [\<lparr>media_type = video, url = url'\<rparr>])
           | Inr False \<Rightarrow>
               if isYouTubeUrl url'
               then extractMedia_loop P matches (media @ [\<lparr>media_type = youtube, url = url'\<rparr>])
               else extractMedia_loop P matches media))"

definition extractMedia :: "platform \<Rightarrow> ndk_event \<Rightarrow> error + media list" where
  "extractMedia P event = extractMedia_loop P (match_urlPattern (ev_content event)) []"

text \<open>The body of the loop over the reaction events, on the two counters it updates.\<close>

definition count_reaction ::
  "platform \<Rightarrow> ndk_event \<Rightarrow> nat \<times> (js_string \<rightharpoonup> nat) \<Rightarrow> nat \<times> (js_string \<rightharpoonup> nat)" where
  "count_reaction P reactionEvent st =
     (case st of
        (likes, custom) \<Rightarrow>
          let content' = trim (ev_content reactionEvent) in
          if content' = js ''+'' \<or> content' = [] then (likes + 1, custom)
          else if (startsWith content' (js '':'') \<and> endsWith content' (js '':'')) \<or>
                  (length content' = 1 \<and> Emoji P (hd content'))
          then (likes,
                custom(content' \<mapsto> (case custom content' of None \<Rightarrow> 0 | Some n \<Rightarrow> n) + 1))
          else (likes, custom))"

definition createNoteReactionsFromEvent ::
  "services \<Rightarrow> platform \<Rightarrow> ndk_event \<Rightarrow> NoteReactions async" where
  "createNoteReactionsFromEvent S P event =
     bind (ask (FetchEvents Reaction (ev_id event)) (fetchEvents S Reaction (ev_id event)))
       (\<lambda>reactionEvents.
          case fold (count_reaction P) reactionEvents (0, Map.empty) of
            (likes, custom) \<Rightarrow>
              bind (ask (FetchEvents Repost (ev_id event)) (fetchEvents S Repost (ev_id event)))
                (\<lambda>repostEvents.
                   bind (ask (CalculateZapsAmount (ev_id event)) (calculateZapsAmount S (ev_id event)))
                     (\<lambda>zaps.
                        resolve \<lparr>likesCount = likes,
                                 repostsCount = length repostEvents,
                                 zapsAmount = zaps,
                                 customReactions = custom\<rparr>)))"

text \<open>\<open>event.tags.find((tag) => tag[0] === 'e')?.[1]\<close>.\<close>

definition replyEventId :: "ndk_event \<Rightarrow> js_string option" where
  "replyEventId event =
     (case find (\<lambda>tag. nth_opt tag 0 = Some (js ''e'')) (ev_tags event) of
        None \<Rightarrow> None
      | Some tag \<Rightarrow> nth_opt tag 1)"

function createNoteFromEvent :: "services \<Rightarrow> platform \<Rightarrow> ndk_event \<Rightarrow> nat \<Rightarrow> Note async" where
  "createNoteFromEvent S P event depth l =
     (case ask (RepositoryFetchProfile (npub (ev_author event)))
               (fetchProfile S (npub (ev_author event))) l of
        (Rejected e, l1) \<Rightarrow> (Rejected e, l1)
      | (Pending, l1) \<Rightarrow> (Pending, l1)
      | (Resolved profile', l1) \<Rightarrow>
          (case extractMedia P event of
             Inl e \<Rightarrow> (Rejected e, l1)
           | Inr media \<Rightarrow>
               (case (if truthy_string (replyEventId event) \<and> depth = 0
                      then ask (FetchEvent (the (replyEventId event)))
                               (fetchEvent S (the (replyEventId event))) l1
                      else (Resolved None, l1)) of
                  (Rejected e, l2) \<Rightarrow> (Rejected e, l2)
                | (Pending, l2) \<Rightarrow> (Pending, l2)
                | (Resolved replyEvent, l2) \<Rightarrow>
                    (case (case replyEvent of
                             None \<Rightarrow> (Resolved None, l2)
                           | Some parent \<Rightarrow>
                               (case createNoteFromEvent S P parent 1 l2 of
                                  (Resolved n, l3) \<Rightarrow> (Resolved (Some n), l3)
                                | (Rejected e, l3) \<Rightarrow> (Rejected e, l3)
                                | (Pending, l3) \<Rightarrow> (Pending, l3))) of
                       (Rejected e, l3) \<Rightarrow> (Rejected e, l3)
                     | (Pending, l3) \<Rightarrow> (Pending, l3)
                     | (Resolved replyParentNote', l3) \<Rightarrow>
                         (case createNoteReactionsFromEvent S P event l3 of
                            (Rejected e, l4) \<Rightarrow> (Rejected e, l4)
                          | (Pending, l4) \<Rightarrow> (Pending, l4)
                          | (Resolved reactions', l4) \<Rightarrow>
                              (Resolved
                                 (Note (ev_id event)
                                    \<lparr>User_npub = npub (ev_author event),
                                     User_pubkey = user_pubkey (ev_author event),
                                     User_profile = profile'\<rparr>
                                    (ev_content event)
                                    media
                                    (JSON_stringify P (rawEvent event))
                                    replyParentNote'
                                    []
                                    reactions'
                                    (if truthy_number (ev_created_at event)
                                     then the (ev_created_at event) * 1000 else 0)),
                               l4))))))"
  by pat_completeness auto
termination
  by (relation "measure (\<lambda>(S, P, event, depth, l). if depth = 0 then 1 else 0)")
     (auto split: if_splits)


section \<open>The media classifier as the specification words it\<close>

text \<open>
  "Extract the file extension from the URL path (substring after the last \<open>.\<close>,
  case-insensitive)": none when the path has no dot.
\<close>

definition extension_of_path :: "js_string \<Rightarrow> js_string option" where
  "extension_of_path pathname =
     (if 0x2E \<in> set pathname
      then Some (toLowerCase (rev (takeWhile (\<lambda>c. c \<noteq> 0x2E) (rev pathname))))
      else None)"

text \<open>
  "A YouTube watch/share pattern", "recognized YouTube URL shapes": a watch URL,
  \<open>http(s)://(www.)youtube.com/watch?v=ID\<close>, or a share URL, \<open>http(s)://youtu.be/ID\<close>,
  where the id starts with a letter, a digit, an underscore or a hyphen.
\<close>

definition youtube_shapes :: "js_string list" where
  "youtube_shapes =
     [js ''https://www.youtube.com/watch?v='', js ''https://youtube.com/watch?v='',
      js ''http://www.youtube.com/watch?v='', js ''http://youtube.com/watch?v='',
      js ''https://youtu.be/'', js ''http://youtu.be/'']"

definition youtube_shape :: "js_string \<Rightarrow> bool" where
  "youtube_shape url' \<longleftrightarrow>
     list_ex (\<lambda>p. startsWith url' p \<and>
                  (case drop (length p) url' of [] \<Rightarrow> False | c # _ \<Rightarrow> word_or_hyphen c))
       youtube_shapes"

text \<open>
  "Image extensions: image; video extensions: video; else, if the URL matches a YouTube
  watch/share pattern: youtube; else, not classified as media."
\<close>

definition classify :: "js_string \<Rightarrow> js_string \<Rightarrow> media_type option" where
  "classify pathname url' =
     (if extension_of_path pathname \<in> Some ` set imageExtensions then Some image
      else if extension_of_path pathname \<in> Some ` set videoExtensions then Some video
      else if youtube_shape url' then Some youtube
      else None)"

text \<open>
  "In encounter order": the strings \<open>ms\<close> occur in \<open>s\<close> one after the other, without
  overlap.
\<close>

inductive in_order :: "js_string \<Rightarrow> js_string list \<Rightarrow> bool" where
  in_order_Nil: "in_order s []"
| in_order_Cons: "in_order post ms \<Longrightarrow> in_order (pre @ m @ post) (m # ms)"


section \<open>Test doubles\<close>

text \<open>
  Concrete collaborators, for evaluating the client on concrete inputs.  The event id of
  the double counts the tags of the event it is given, so that an id computed over four
  tags differs from one computed over five.
\<close>

definition valid_npub :: js_string where
  "valid_npub = js ''npub1xtscya34g58tk0z605fvr788k263gsu6cy9x0mhnm87echrgufzsevkk5s''"

definition alice :: ndk_user where
  "alice = \<lparr>npub = valid_npub, user_pubkey = js ''a11ce'', profile = None\<rparr>"

definition bob :: ndk_user where
  "bob = \<lparr>npub = js ''npub1bob'', user_pubkey = js ''b0b'', profile = None\<rparr>"

definition ndk_stub :: ndk where
  "ndk_stub =
     \<lparr>blockUntilReady = (\<lambda>ms l. Resolved ()),
      ndk_connect = (\<lambda>relays ms l. Resolved ()),
      signer_user = (\<lambda>l. Resolved alice),
      signer_sign = (\<lambda>ev l. Resolved (js ''5160'')),
      user_fetchProfile = (\<lambda>n l. Resolved (Some (js ''{}''))),
      ndk_getUser = (\<lambda>n. Inr \<lparr>npub = n, user_pubkey = js ''a11ce'', profile = None\<rparr>),
      fromNip05 = (\<lambda>a l. Resolved (Some bob))\<rparr>"

definition utils_stub :: utils where
  "utils_stub =
     \<lparr>generateEventId = (\<lambda>ev. js ''id-of-'' @ Number_toString (int (length (tags ev))) @ js ''-tags''),
      unixtime = (\<lambda>l. 1700000000),
      toLnurlPayUrl = (\<lambda>a. Inr (Some (js ''https://pay.example/lnurlp/bob''))),
      toBech32EncodedLnurl = (\<lambda>u. Inr (js ''lnurl1bob''))\<rparr>"

definition descriptor :: "int option \<Rightarrow> int option \<Rightarrow> json_body" where
  "descriptor lo hi =
     \<lparr>callback = Some (js ''https://pay.example/cb''), minSendable = lo, maxSendable = hi,
      allowsNostr = True, nostrPubkey = Some (js ''b0b''), status = None, pr = None,
      verify = None, successAction = None\<rparr>"

definition invoice :: json_body where
  "invoice =
     \<lparr>callback = None, minSendable = None, maxSendable = None, allowsNostr = False,
      nostrPubkey = None, status = Some (js ''OK''), pr = Some (js ''lnbc10n1''),
      verify = None, successAction = None\<rparr>"

text \<open>
  A stand-in for \<open>new URL(url).pathname\<close> on the URLs of the examples: after the scheme,
  the host runs to the first \<open>/\<close>, \<open>?\<close> or \<open>#\<close> and the path to the first \<open>?\<close> or \<open>#\<close>;
  an empty host or a host with an opening bracket is no URL.
\<close>

definition URL_pathname_stub :: "js_string \<Rightarrow> js_string option" where
  "URL_pathname_stub u =
     (let rest = (if startsWith u (js ''https://'') then drop 8 u else drop 7 u);
          host = takeWhile (\<lambda>c. c \<noteq> 0x2F \<and> c \<noteq> 0x3F \<and> c \<noteq> 0x23) rest;
          path = takeWhile (\<lambda>c. c \<noteq> 0x3F \<and> c \<noteq> 0x23) (drop (length host) rest)
      in if host = [] \<or> 0x5B \<in> set host then None
         else Some (if path = [] then js ''/'' else path))"

definition platform_stub :: "json_body \<Rightarrow> platform" where
  "platform_stub d =
     \<lparr>axios_get = (\<lambda>url l. if url = Some (js ''https://pay.example/lnurlp/bob'')
                             then Resolved (Some d) else Resolved (Some invoice)),
      JSON_stringify = (\<lambda>ev. js ''{}''),
      JSON_stringify_lud16 = (\<lambda>a. a),
      JSON_parse_lud16 = (\<lambda>s. Inr (Some s)),
      encodeURI = (\<lambda>s. s),
      URL_append = (\<lambda>base ps. Inr (base @ js ''?'' @ concat (map (\<lambda>(k, v). k @ js ''='' @ v @ js '';'') ps))),
      URL_pathname = URL_pathname_stub,
      Emoji = (\<lambda>c. c = 0x2764 \<or> c = 0x2B50)\<rparr>"

definition this_stub :: client where
  "this_stub = \<lparr>explicitRelayUrls = Relays, user = alice\<rparr>"


text \<open>
  A profile store whose answer changes: \<open>v1\<close> for the first fetch of a profile, \<open>v2\<close>
  for every later one.  \<open>session_1\<close> and \<open>session_2\<close> are the clients built from them.
\<close>

definition ndk_two_profiles :: ndk where
  "ndk_two_profiles =
     ndk_stub\<lparr>user_fetchProfile :=
                (\<lambda>n l. Resolved (Some (if count_list l (FetchProfile n) = 0
                                        then js ''v1'' else js ''v2'')))\<rparr>"

definition session_1 :: client where
  "session_1 = \<lparr>explicitRelayUrls = Relays, user = alice\<lparr>profile := Some (js ''v1'')\<rparr>\<rparr>"

definition session_2 :: client where
  "session_2 = \<lparr>explicitRelayUrls = Relays, user = alice\<lparr>profile := Some (js ''v2'')\<rparr>\<rparr>"

text \<open>The zap request that \<open>makeZapRequest\<close> builds for 1 sat with these doubles.\<close>

definition zap_request_1 :: nostr_event where
  "zap_request_1 =
     \<lparr>kind = 9734, pubkey = js ''a11ce'', created_at = 1700000000,
      tags = [js ''relays'' # Relays, [js ''amount'', js ''1000''], [js ''lnurl'', js ''lnurl1bob''],
              [js ''p'', js ''b0b''], [js ''e'', js ''id-of-4-tags'']],
      content = js ''zap request'', id' = None, sig = None\<rparr>"


text \<open>
  A thread of three notes, each a reply to the one before, and the reactions to the last
  one: a plus, an empty string, a shortcode, a word, the heart U+2764 (one code unit), and
  the thumbs-up U+1F44D (the surrogate pair D83D DC4D).
\<close>

definition text_event :: "js_string \<Rightarrow> js_string \<Rightarrow> js_string list list \<Rightarrow> ndk_event" where
  "text_event i c ts =
     \<lparr>ev_id = i, ev_author = alice, ev_content = c, ev_tags = ts,
      ev_created_at = Some 1700000000,
      rawEvent = \<lparr>kind = 1, pubkey = js ''a11ce'', created_at = 1700000000, tags = ts,
                  content = c, id' = Some i, sig = Some (js ''5160'')\<rparr>\<rparr>"

definition root_event :: ndk_event where
  "root_event = text_event (js ''root'') (js ''first'') []"

definition reply_event :: ndk_event where
  "reply_event = text_event (js ''reply'') (js ''second'') [[js ''e'', js ''root'']]"

definition reply_reply_event :: ndk_event where
  "reply_reply_event =
     text_event (js ''reply2'') (js ''see https://example.com/cat.PNG'') [[js ''e'', js ''reply'']]"

definition reaction_events :: "ndk_event list" where
  "reaction_events =
     [text_event (js ''r1'') (js ''+'') [], text_event (js ''r2'') [] [],
      text_event (js ''r3'') (js '' :smile: '') [], text_event (js ''r4'') (js ''hello'') [],
      text_event (js ''r5'') [0x2764] [], text_event (js ''r6'') [0xD83D, 0xDC4D] []]"

definition services_stub :: services where
  "services_stub =
     \<lparr>fetchProfile = (\<lambda>n l. Resolved (Some (js ''{}''))),
      fetchEvent = (\<lambda>i l. Resolved (if i = js ''root'' then Some root_event
                                      else if i = js ''reply'' then Some reply_event
                                      else None)),
      fetchEvents = (\<lambda>k i l. Resolved (if k = Reaction \<and> i = js ''reply2''
                                          then reaction_events else [])),
      calculateZapsAmount = (\<lambda>i l. Resolved 0)\<rparr>"

text \<open>A relay that holds one reaction to every note: the thumbs-up.\<close>

definition thumbs_up_only :: services where
  "thumbs_up_only =
     \<lparr>fetchProfile = (\<lambda>n l. Resolved None),
      fetchEvent = (\<lambda>i l. Resolved None),
      fetchEvents = (\<lambda>k i l. Resolved (if k = Reaction
                                          then [text_event (js ''r6'') [0xD83D, 0xDC4D] []]
                                          else [])),
      calculateZapsAmount = (\<lambda>i l. Resolved 0)\<rparr>"

text \<open>A note whose text holds a string that starts like a URL and is none.\<close>

definition malformed_event :: ndk_event where
  "malformed_event = text_event (js ''m1'') (js ''broken link http://[ sorry'') []"


text \<open>A note with a link to a site that is not YouTube, and one with an image and a broken link.\<close>

definition lookalike_event :: ndk_event where
  "lookalike_event = text_event (js ''n2'') (js ''https://notyoutube.com/x'') []"

definition image_and_malformed_event :: ndk_event where
  "image_and_malformed_event = text_event (js ''n3'') (js ''https://e.com/a.png http://['') []"


section \<open>The retry wrapper: theorems\<close>

declare fetchWithRetry.simps [simp del]

lemma fetchWithRetry_last:
  "\<not> retries < MaxRetries - 1 \<Longrightarrow>
   fetchWithRetry operation retries l =
     (case operation l of (out, l1) \<Rightarrow> (fetchWithTimeout out, l1))"
  by (simp add: fetchWithRetry.simps [of operation retries l] split: prod.splits sum.splits)

lemma fetchWithRetry_more:
  "retries < MaxRetries - 1 \<Longrightarrow>
   fetchWithRetry operation retries l =
     (case operation l of
        (out, l1) \<Rightarrow>
          (case fetchWithTimeout out of
             Inr v \<Rightarrow> (Inr v, l1)
           | Inl error \<Rightarrow> fetchWithRetry operation (retries + 1) (delay RetryDelay l1)))"
  by (simp add: fetchWithRetry.simps [of operation retries l] split: prod.splits sum.splits)

text \<open>
  C2.  Started with \<open>retries = 0\<close>, the wrapper invokes the operation at most three
  times, and awaits \<open>delay(RetryDelay)\<close> between two consecutive invocations and nowhere
  else.  Name the three invocations: the first runs on the caller's log \<open>l0\<close>, the second
  on the log the first left plus one delay, the third on the log the second left plus one
  delay.  Then the wrapper returns the value of the first invocation that resolves in
  time, with the log that invocation left; an operation that fails twice and then
  resolves to \<open>v\<close> gives \<open>(Inr v, l3)\<close>, after exactly three invocations and two delays;
  an operation that fails three times gives the error of the third attempt, and the
  operation is not invoked a fourth time.
\<close>

theorem fetchWithRetry_three_attempts:
  assumes a1: "operation l0 = (out1, l1)"
    and a2: "operation (delay RetryDelay l1) = (out2, l2)"
    and a3: "operation (delay RetryDelay l2) = (out3, l3)"
  shows "fetchWithRetry operation 0 l0 =
     (case fetchWithTimeout out1 of
        Inr v \<Rightarrow> (Inr v, l1)
      | Inl e1 \<Rightarrow>
          (case fetchWithTimeout out2 of
             Inr v \<Rightarrow> (Inr v, l2)
           | Inl e2 \<Rightarrow> (fetchWithTimeout out3, l3)))"
proof -
  have third:
    "fetchWithRetry operation (Suc (Suc 0)) (delay RetryDelay l2) = (fetchWithTimeout out3, l3)"
    using a3 by (simp add: fetchWithRetry_last MaxRetries_def)
  have second: "fetchWithRetry operation (Suc 0) (delay RetryDelay l1) =
      (case fetchWithTimeout out2 of
         Inr v \<Rightarrow> (Inr v, l2)
       | Inl e2 \<Rightarrow> (fetchWithTimeout out3, l3))"
    using a2 third by (simp add: fetchWithRetry_more MaxRetries_def split: sum.splits)
  show ?thesis
    using a1 second by (simp add: fetchWithRetry_more MaxRetries_def split: sum.splits)
qed

theorem fetchWithRetry_three_attempts_witness:
  "scripted (FetchProfile []) fails_twice []
     = (Rejected (Error (js ''relay down'')), [FetchProfile []])
   \<and> scripted (FetchProfile []) fails_twice (delay RetryDelay [FetchProfile []])
     = (Rejected (Error (js ''relay down'')), [FetchProfile [], Delay 100, FetchProfile []])
   \<and> scripted (FetchProfile []) fails_twice
       (delay RetryDelay [FetchProfile [], Delay 100, FetchProfile []])
     = (Resolved 7, [FetchProfile [], Delay 100, FetchProfile [], Delay 100, FetchProfile []])
   \<and> fetchWithRetry (scripted (FetchProfile []) fails_twice) 0 []
     = (Inr 7, [FetchProfile [], Delay 100, FetchProfile [], Delay 100, FetchProfile []])
   \<and> count_list (snd (fetchWithRetry (scripted (FetchProfile []) fails_twice) 0 []))
       (FetchProfile []) = 3
   \<and> count_list (snd (fetchWithRetry (scripted (FetchProfile []) fails_twice) 0 []))
       (Delay 100) = 2"
  using fetchWithRetry_three_attempts [of "scripted (FetchProfile []) fails_twice" "[]"
      "Rejected (Error (js ''relay down''))" "[FetchProfile []]"
      "Rejected (Error (js ''relay down''))" "[FetchProfile [], Delay 100, FetchProfile []]"
      "Resolved 7" "[FetchProfile [], Delay 100, FetchProfile [], Delay 100, FetchProfile []]"]
  by (simp add: scripted_def delay_def RetryDelay_def fetchWithTimeout_def)

text \<open>
  C8 (as the code has it).  When the wrapper fails, the error it surfaces is the error of
  its last attempt and nothing else: the value the operation rejected with, or
  \<open>Error('Operation timeout')\<close> when that attempt was still pending at the timeout.  It
  is not wrapped in another error.
\<close>

theorem fetchWithRetry_surfaces_last_error:
  assumes "fetchWithRetry operation retries l = (Inl x, l')"
  shows "\<exists>l_last out. operation l_last = (out, l') \<and> fetchWithTimeout out = Inl x \<and>
           (out = Rejected x \<or> out = Pending \<and> x = Error (js ''Operation timeout''))"
  using assms
proof (induction operation retries l rule: fetchWithRetry.induct)
  case (1 operation retries l)
  obtain out l1 where op: "operation l = (out, l1)" by (cases "operation l")
  show ?case
  proof (cases "fetchWithTimeout out")
    case (Inr v)
    with op "1.prems" show ?thesis
      by (simp add: fetchWithRetry.simps [of operation retries l])
  next
    case (Inl e)
    show ?thesis
    proof (cases "retries < MaxRetries - 1")
      case True
      with op Inl "1.prems"
      have "fetchWithRetry operation (retries + 1) (delay RetryDelay l1) = (Inl x, l')"
        by (simp add: fetchWithRetry.simps [of operation retries l])
      with "1.IH" [OF op [symmetric] Inl True] show ?thesis by simp
    next
      case False
      with op Inl "1.prems" have "e = x" "l1 = l'"
        by (simp_all add: fetchWithRetry.simps [of operation retries l])
      with op Inl show ?thesis
        by (auto simp: fetchWithTimeout_def split: outcome.splits)
    qed
  qed
qed

theorem fetchWithRetry_surfaces_last_error_witness:
  "fetchWithRetry (scripted (FetchProfile []) fails_always) 0 []
     = (Inl (Error (js ''third'')),
        [FetchProfile [], Delay 100, FetchProfile [], Delay 100, FetchProfile []])
   \<and> (\<exists>l_last out. scripted (FetchProfile []) fails_always l_last
          = (out, [FetchProfile [], Delay 100, FetchProfile [], Delay 100, FetchProfile []])
        \<and> fetchWithTimeout out = Inl (Error (js ''third'')) \<and>
           (out = Rejected (Error (js ''third'')) \<or>
            out = Pending \<and> Error (js ''third'') = Error (js ''Operation timeout'')))"
proof -
  have run: "fetchWithRetry (scripted (FetchProfile []) fails_always) 0 []
     = (Inl (Error (js ''third'')),
        [FetchProfile [], Delay 100, FetchProfile [], Delay 100, FetchProfile []])"
    by (simp add: fetchWithRetry.simps scripted_def fetchWithTimeout_def MaxRetries_def
        delay_def RetryDelay_def)
  from fetchWithRetry_surfaces_last_error [OF run] run show ?thesis by simp
qed

text \<open>
  C8 as the specification words it fails: an operation that rejects, times out and
  rejects again surfaces the third rejection itself, an error that carries no cause.
\<close>

theorem retries_exhausted_counterexample:
  "fst (fetchWithRetry (scripted (FetchProfile []) fails_always) 0 [])
     = Inl (Error (js ''third''))
   \<and> fails_always 2 = Rejected (Error (js ''third''))
   \<and> cause (Error (js ''third'')) = None"
  by (simp add: fetchWithRetry.simps scripted_def fetchWithTimeout_def MaxRetries_def
        delay_def RetryDelay_def)

section \<open>NostrClient: theorems\<close>

lemmas async_defs = bind_def resolve_def reject_def run_sync_def ask_def

lemma fetchWithRetry_extends:
  "(\<And>l. \<exists>ys. snd (operation l) = l @ ys) \<Longrightarrow>
   \<exists>ys. snd (fetchWithRetry operation retries l) = l @ ys"
proof (induction operation retries l rule: fetchWithRetry.induct)
  case (1 operation retries l)
  obtain out l1 where op: "operation l = (out, l1)" by (cases "operation l")
  from "1.prems" [of l] op obtain ys where l1: "l1 = l @ ys" by auto
  show ?case
  proof (cases "fetchWithTimeout out")
    case (Inr v)
    with op l1 show ?thesis by (simp add: fetchWithRetry.simps [of operation retries l])
  next
    case (Inl e)
    show ?thesis
    proof (cases "retries < MaxRetries - 1")
      case True
      from "1.IH" [OF op [symmetric] Inl True "1.prems"]
      obtain zs where "snd (fetchWithRetry operation (retries + 1) (delay RetryDelay l1)) =
          delay RetryDelay l1 @ zs" by blast
      with op Inl True l1 show ?thesis
        by (simp add: fetchWithRetry.simps [of operation retries l] delay_def)
    next
      case False
      with op Inl l1 show ?thesis by (simp add: fetchWithRetry.simps [of operation retries l])
    qed
  qed
qed


text \<open>
  C10.  \<open>getUser\<close> and \<open>getUserWithProfile\<close> check their argument first.  An argument
  whose length is not 63 or that does not start with \<open>npub\<close> is rejected with
  \<open>Error('Invalid npub: ' + npub)\<close> and the log is left as it was: no collaborator is
  called.  An argument that passes the check reaches \<open>ndk.getUser\<close>: it is the next entry of
  the log.
\<close>

theorem npub_validated_first:
  "(length npub' \<noteq> 63 \<or> \<not> startsWith npub' (js ''npub'') \<longrightarrow>
      getUser N npub' l = (Rejected (Error (js ''Invalid npub: '' @ npub')), l) \<and>
      getUserWithProfile N npub' l = (Rejected (Error (js ''Invalid npub: '' @ npub')), l))
   \<and> (length npub' = 63 \<and> startsWith npub' (js ''npub'') \<longrightarrow>
        snd (getUser N npub' l) = l @ [NdkGetUser npub'] \<and>
        (\<exists>ys. snd (getUserWithProfile N npub' l) = l @ NdkGetUser npub' # ys))"
proof -
  have rj: "length npub' \<noteq> 63 \<or> \<not> startsWith npub' (js ''npub'') \<Longrightarrow>
      getUser N npub' l = (Rejected (Error (js ''Invalid npub: '' @ npub')), l) \<and>
      getUserWithProfile N npub' l = (Rejected (Error (js ''Invalid npub: '' @ npub')), l)"
    by (auto simp: getUser_def getUserWithProfile_def reject_def)
  have ok1: "length npub' = 63 \<and> startsWith npub' (js ''npub'') \<Longrightarrow>
        snd (getUser N npub' l) = l @ [NdkGetUser npub']"
    by (auto simp: getUser_def async_defs split: sum.splits)
  have ok2: "\<exists>ys. snd (getUserWithProfile N npub' l) = l @ NdkGetUser npub' # ys"
    if v: "length npub' = 63 \<and> startsWith npub' (js ''npub'')"
  proof (cases "ndk_getUser N npub'")
    case (Inl e)
    with v show ?thesis by (simp add: getUserWithProfile_def async_defs)
  next
    case (Inr u)
    have "\<exists>ys. snd (fetchWithRetry (ask (FetchProfile (npub u)) (user_fetchProfile N (npub u))) 0
              (l @ [NdkGetUser npub'])) = (l @ [NdkGetUser npub']) @ ys"
      by (rule fetchWithRetry_extends) (simp add: ask_def)
    then obtain ys where
      "snd (fetchWithRetry (ask (FetchProfile (npub u)) (user_fetchProfile N (npub u))) 0
              (l @ [NdkGetUser npub'])) = (l @ [NdkGetUser npub']) @ ys" by blast
    with v Inr show ?thesis
      by (auto simp: getUserWithProfile_def async_defs split: prod.splits sum.splits)
  qed
  show ?thesis using rj ok1 ok2 by blast
qed


theorem npub_validated_first_witness:
  "getUser ndk_stub (js ''nsec1'') [] = (Rejected (Error (js ''Invalid npub: nsec1'')), [])
   \<and> getUserWithProfile ndk_stub (js ''nsec1'') []
       = (Rejected (Error (js ''Invalid npub: nsec1'')), [])
   \<and> length valid_npub = 63 \<and> startsWith valid_npub (js ''npub'')
   \<and> snd (getUser ndk_stub valid_npub []) = [NdkGetUser valid_npub]
   \<and> (\<exists>ys. snd (getUserWithProfile ndk_stub valid_npub []) = NdkGetUser valid_npub # ys)"
proof -
  have bad: "length (js ''nsec1'') \<noteq> 63 \<or> \<not> startsWith (js ''nsec1'') (js ''npub'')"
    by (simp add: js_def)
  have good: "length valid_npub = 63 \<and> startsWith valid_npub (js ''npub'')"
    by (simp add: valid_npub_def js_def startsWith_def)
  have msg: "js ''Invalid npub: '' @ js ''nsec1'' = js ''Invalid npub: nsec1''"
    by (simp add: js_def)
  from npub_validated_first [of "js ''nsec1''" ndk_stub "[]"] bad msg
       npub_validated_first [of valid_npub ndk_stub "[]"] good
  show ?thesis by simp
qed

lemma connect_step_existing:
  "connect_step N NotStarted (Some c) l = (Settled (Inr c), Some c, l)"
  by simp

lemma connect_step_writes:
  "connect_step N call nostrClient l = (call1, nostrClient1, l1) \<Longrightarrow>
   nostrClient1 \<noteq> nostrClient \<Longrightarrow>
   \<exists>u p. call = AwaitFetchProfile u (Resolved p) \<and>
         nostrClient1 = Some \<lparr>explicitRelayUrls = Relays, user = u\<lparr>profile := p\<rparr>\<rparr>"
  by (cases call) (auto simp: Let_def split: option.splits outcome.splits)

text \<open>
  C9 on the code.  A call of \<open>connect\<close> that starts when \<open>#nostrClient\<close> is set returns
  it and calls nothing (\<open>connect_step_existing\<close>).  But the field is read before the
  first \<open>await\<close> and written after the last, and nothing records that an initialisation
  is under way.  Two calls that start before either has finished both find the field
  empty, both do the handshake, connect and fetch the profile (eight calls in the log),
  and both write the field: the second write replaces the client the first call returned,
  and a third call, started afterwards, returns the second client.
\<close>

theorem overlapping_connects_initialise_twice:
  "run_connects ndk_two_profiles [0, 1, 0, 1, 0, 1, 0, 1, 0, 1, 2]
     [NotStarted, NotStarted, NotStarted] None []
   = ([Settled (Inr session_1), Settled (Inr session_2), Settled (Inr session_2)],
      Some session_2,
      [BlockUntilReady 60000, BlockUntilReady 60000, NdkConnect, NdkConnect,
       SignerUser, SignerUser, FetchProfile valid_npub, FetchProfile valid_npub])
   \<and> session_1 \<noteq> session_2"
proof -
  have neq: "session_1 \<noteq> session_2"
    by (simp add: session_1_def session_2_def alice_def js_def)
  have run: "run_connects ndk_two_profiles [0, 1, 0, 1, 0, 1, 0, 1, 0, 1, 2]
     [NotStarted, NotStarted, NotStarted] None []
   = ([Settled (Inr session_1), Settled (Inr session_2), Settled (Inr session_2)],
      Some session_2,
      [BlockUntilReady 60000, BlockUntilReady 60000, NdkConnect, NdkConnect,
       SignerUser, SignerUser, FetchProfile valid_npub, FetchProfile valid_npub])"
    by (simp add: ndk_two_profiles_def ndk_stub_def alice_def session_1_def session_2_def
          LoginTimeoutMSec_def Let_def)
  from run neq show ?thesis by simp
qed


section \<open>Zaps: theorems\<close>

declare digits.simps [simp del]










lemma makeZapRequest_Resolved:
  assumes "makeZapRequest N U this nip05Id msat l = (Resolved ev, l1)"
  shows "\<exists>to lnurl.
           fromNip05 N nip05Id l = Resolved (Some to) \<and>
           l1 = l @ [FromNip05 nip05Id, Unixtime] \<and>
           ev = \<lparr>kind = ZapRequest, pubkey = user_pubkey (user this),
                 created_at = unixtime U (l @ [FromNip05 nip05Id]),
                 tags = [js ''relays'' # Relays, [js ''amount'', Number_toString msat],
                         [js ''lnurl'', lnurl], [js ''p'', user_pubkey to],
                         [js ''e'', generateEventId U
                            \<lparr>kind = ZapRequest, pubkey = user_pubkey (user this),
                             created_at = unixtime U (l @ [FromNip05 nip05Id]),
                             tags = [js ''relays'' # Relays, [js ''amount'', Number_toString msat],
                                     [js ''lnurl'', lnurl], [js ''p'', user_pubkey to]],
                             content = js ''zap request'', id' = None, sig = None\<rparr>]],
                 content = js ''zap request'', id' = None, sig = None\<rparr>"
proof (cases "fromNip05 N nip05Id l")
  case (Resolved to')
  show ?thesis
  proof (cases to')
    case None
    with Resolved assms show ?thesis by (simp add: makeZapRequest_def async_defs)
  next
    case (Some to)
    show ?thesis
    proof (cases "toLnurlPayUrl U (Some nip05Id)")
      case (Inl e)
      with Resolved Some assms show ?thesis by (simp add: makeZapRequest_def async_defs)
    next
      case url: (Inr url)
      show ?thesis
      proof (cases "toBech32EncodedLnurl U url")
        case (Inl e)
        with Resolved Some url assms show ?thesis by (simp add: makeZapRequest_def async_defs)
      next
        case (Inr lnurl)
        with Resolved Some url assms show ?thesis
          by (simp add: makeZapRequest_def async_defs Let_def) blast
      qed
    qed
  qed
next
  case (Rejected e)
  with assms show ?thesis by (simp add: makeZapRequest_def async_defs)
next
  case Pending
  with assms show ?thesis by (simp add: makeZapRequest_def async_defs)
qed

text \<open>
  C1.  A zap request that \<open>makeZapRequest\<close> returns has five tags.  The first four are
  \<open>relays\<close>, \<open>amount\<close>, \<open>lnurl\<close> and \<open>p\<close>; the fifth is \<open>['e', id]\<close>, where \<open>id\<close> is
  \<open>generateEventId\<close> of the event without that fifth tag: the id is computed over the
  kind, the sender's key, the time, the four tags and the content, and appending the
  \<open>e\<close> tag afterwards leaves the id that was computed untouched.  The id is a function of
  those fields, so computing it again over them gives the same value.
\<close>

theorem makeZapRequest_id_stable:
  assumes "makeZapRequest N U this nip05Id msat l = (Resolved ev, l1)"
  shows "\<exists>(to::ndk_user) lnurl.
           butlast (tags ev) = [js ''relays'' # Relays, [js ''amount'', Number_toString msat],
                                [js ''lnurl'', lnurl], [js ''p'', user_pubkey to]]
         \<and> kind ev = ZapRequest \<and> pubkey ev = user_pubkey (user this)
         \<and> content ev = js ''zap request''
         \<and> last (tags ev) = [js ''e'', generateEventId U (ev\<lparr>tags := butlast (tags ev)\<rparr>)]
         \<and> length (tags ev) = 5"
  using makeZapRequest_Resolved [OF assms]
  apply (elim exE conjE)
  subgoal for to lnurl
    apply (rule_tac x = to in exI)
    apply (rule_tac x = lnurl in exI)
    apply simp
    done
  done

theorem makeZapRequest_id_stable_witness:
  "makeZapRequest ndk_stub utils_stub this_stub (js ''bob@pay.example'') 1000 []
     = (Resolved zap_request_1, [FromNip05 (js ''bob@pay.example''), Unixtime])
   \<and> (\<exists>(to::ndk_user) lnurl.
           butlast (tags zap_request_1)
             = [js ''relays'' # Relays, [js ''amount'', Number_toString 1000],
                [js ''lnurl'', lnurl], [js ''p'', user_pubkey to]]
         \<and> kind zap_request_1 = ZapRequest \<and> pubkey zap_request_1 = user_pubkey (user this_stub)
         \<and> content zap_request_1 = js ''zap request''
         \<and> last (tags zap_request_1)
             = [js ''e'', generateEventId utils_stub
                            (zap_request_1\<lparr>tags := butlast (tags zap_request_1)\<rparr>)]
         \<and> length (tags zap_request_1) = 5)
   \<and> last (tags zap_request_1) = [js ''e'', js ''id-of-4-tags'']"
proof -
  have run: "makeZapRequest ndk_stub utils_stub this_stub (js ''bob@pay.example'') 1000 []
     = (Resolved zap_request_1, [FromNip05 (js ''bob@pay.example''), Unixtime])"
    by code_simp
  have e: "last (tags zap_request_1) = [js ''e'', js ''id-of-4-tags'']"
    by (simp add: zap_request_1_def)
  from makeZapRequest_id_stable [OF run] run e show ?thesis by blast
qed







section \<open>NoteService: theorems\<close>

declare match_urlPattern.simps [simp del]
declare createNoteFromEvent.simps [simp del]

lemma split_str_not_Nil: "split_str sep s \<noteq> []"
  by (induction s) (auto split: list.splits)

lemma length_split_str: "Suc 0 < length (split_str sep s) \<longleftrightarrow> sep \<in> set s"
proof (induction s)
  case Nil
  show ?case by simp
next
  case (Cons c cs)
  obtain p ps where sp: "split_str sep cs = p # ps"
    using split_str_not_Nil [of sep cs] by (cases "split_str sep cs") auto
  with Cons show ?case by auto
qed

lemma last_split_str: "last (split_str sep s) = rev (takeWhile (\<lambda>c. c \<noteq> sep) (rev s))"
proof (induction s)
  case Nil
  show ?case by simp
next
  case (Cons c cs)
  obtain p ps where sp: "split_str sep cs = p # ps"
    using split_str_not_Nil [of sep cs] by (cases "split_str sep cs") auto
  show ?case
  proof (cases "sep \<in> set cs")
    case True
    then have "\<exists>x \<in> set (rev cs). \<not> x \<noteq> sep" by simp
    then have tw: "takeWhile (\<lambda>c. c \<noteq> sep) (rev cs @ [c]) = takeWhile (\<lambda>c. c \<noteq> sep) (rev cs)"
      by simp
    from True length_split_str [of sep cs] sp have "ps \<noteq> []" by auto
    with Cons sp tw show ?thesis by auto
  next
    case False
    have tw: "takeWhile (\<lambda>c. c \<noteq> sep) (rev cs @ [c]) =
        rev cs @ takeWhile (\<lambda>c. c \<noteq> sep) [c]"
      by (rule takeWhile_append2) (use False in auto)
    from False length_split_str [of sep cs] sp have ps: "ps = []" by auto
    from False have "takeWhile (\<lambda>c. c \<noteq> sep) (rev cs) = rev cs" by auto
    with Cons sp ps tw False show ?thesis by (auto simp: takeWhile_append2)
  qed
qed

lemma getUrlExtension_spec:
  "URL_pathname P u = Some pathname \<Longrightarrow> getUrlExtension P u = Inr (extension_of_path pathname)"
  by (simp add: getUrlExtension_def extension_of_path_def Let_def length_split_str last_split_str)

lemma extension_empty_not_listed:
  "[] \<notin> set imageExtensions" "[] \<notin> set videoExtensions"
  by (simp_all add: imageExtensions_def videoExtensions_def js_def)

lemma isImageUrl_spec:
  "URL_pathname P u = Some pathname \<Longrightarrow>
   isImageUrl P u = Inr (extension_of_path pathname \<in> Some ` set imageExtensions)"
  using extension_empty_not_listed
  by (auto simp: isImageUrl_def getUrlExtension_spec truthy_string_def split: option.splits)

lemma isVideoUrl_spec:
  "URL_pathname P u = Some pathname \<Longrightarrow>
   isVideoUrl P u = Inr (extension_of_path pathname \<in> Some ` set videoExtensions)"
  using extension_empty_not_listed
  by (auto simp: isVideoUrl_def getUrlExtension_spec truthy_string_def split: option.splits)

lemma in_order_prepend:
  assumes "in_order s ms"
  shows "in_order (p @ s) ms"
  using assms
proof cases
  case in_order_Nil
  then show ?thesis by (simp add: in_order.in_order_Nil)
next
  case (in_order_Cons post ms' pre m)
  from in_order.in_order_Cons [OF in_order_Cons(3), of "p @ pre" m] in_order_Cons(1,2)
  show ?thesis by simp
qed

lemma match_urlPattern_in_order: "in_order s (match_urlPattern s)"
proof (induction s rule: match_urlPattern.induct)
  case (1 s)
  show ?case
  proof (cases "s = []")
    case True
    then show ?thesis by (simp add: match_urlPattern.simps [of "[]"] in_order_Nil)
  next
    case False
    show ?thesis
    proof (cases "urlPattern_at s")
      case None
      from "1.IH"(1) [OF False None] have "in_order ([hd s] @ tl s) (match_urlPattern (tl s))"
        by (rule in_order_prepend)
      with False None show ?thesis by (simp add: match_urlPattern.simps [of s])
    next
      case (Some n)
      from in_order_Cons [OF "1.IH"(2) [OF False Some], of "[]" "take n s"]
      show ?thesis using False Some by (simp add: match_urlPattern.simps [of s])
    qed
  qed
qed


lemma extractMedia_loop_malformed:
  "u \<in> set urls \<Longrightarrow> URL_pathname P u = None \<Longrightarrow>
   extractMedia_loop P urls acc = Inl (TypeError (js ''Invalid URL''))"
proof (induction urls arbitrary: acc)
  case Nil
  then show ?case by simp
next
  case (Cons v urls)
  show ?case
  proof (cases "URL_pathname P v")
    case None
    then show ?thesis by (simp add: isImageUrl_def getUrlExtension_def)
  next
    case (Some pathname)
    with Cons.prems have "u \<in> set urls" by auto
    from Cons.IH [OF this Cons.prems(2)]
    have "\<And>acc. extractMedia_loop P urls acc = Inl (TypeError (js ''Invalid URL''))" .
    then show ?thesis
      by (simp add: isImageUrl_spec [OF Some] isVideoUrl_spec [OF Some] split: bool.splits)
  qed
qed

lemma createNoteFromEvent_extractMedia_fails:
  "fetchProfile S (npub (ev_author event)) l = Resolved profile' \<Longrightarrow>
   extractMedia P event = Inl e \<Longrightarrow>
   createNoteFromEvent S P event depth l =
     (Rejected e, l @ [RepositoryFetchProfile (npub (ev_author event))])"
  by (simp add: createNoteFromEvent.simps [of S P event depth l] ask_def)


lemma re_plus_Cons: "cls c \<Longrightarrow> re_plus cls (c # rest) \<noteq> []"
  by (simp add: re_plus_def)

lemma re_test_start: "a s \<noteq> [] \<Longrightarrow> re_test a s"
proof -
  assume "a s \<noteq> []"
  then have "a (drop 0 s) \<noteq> []" by simp
  moreover have "0 \<in> set [0..<Suc (length s)]" by simp
  ultimately show ?thesis unfolding re_test_def list_ex_iff by blast
qed

lemma youtube_shape_prefix:
  assumes p: "p \<in> set youtube_shapes" and w: "word_or_hyphen c"
  shows "isYouTubeUrl (p @ c # rest)"
proof -
  note plus = re_plus_Cons [of word_or_hyphen c rest, OF w]
  note defs = re_seq_def re_opt_def re_alt_def re_lit_def startsWith_def js_def
  from p consider
      "p = js ''https://www.youtube.com/watch?v=''" | "p = js ''https://youtube.com/watch?v=''"
    | "p = js ''http://www.youtube.com/watch?v=''" | "p = js ''http://youtube.com/watch?v=''"
    | "p = js ''https://youtu.be/''" | "p = js ''http://youtu.be/''"
    unfolding youtube_shapes_def by auto
  then show ?thesis
  proof cases
    case 1
    show ?thesis unfolding isYouTubeUrl_def 1 by (rule re_test_start) (insert plus, simp add: defs)
  next
    case 2
    show ?thesis unfolding isYouTubeUrl_def 2 by (rule re_test_start) (insert plus, simp add: defs)
  next
    case 3
    show ?thesis unfolding isYouTubeUrl_def 3 by (rule re_test_start) (insert plus, simp add: defs)
  next
    case 4
    show ?thesis unfolding isYouTubeUrl_def 4 by (rule re_test_start) (insert plus, simp add: defs)
  next
    case 5
    show ?thesis unfolding isYouTubeUrl_def 5 by (rule re_test_start) (insert plus, simp add: defs)
  next
    case 6
    show ?thesis unfolding isYouTubeUrl_def 6 by (rule re_test_start) (insert plus, simp add: defs)
  qed
qed

lemma youtube_shape_accepted:
  assumes "youtube_shape u"
  shows "isYouTubeUrl u"
proof -
  from assms obtain p where p: "p \<in> set youtube_shapes" "startsWith u p"
    and c: "case drop (length p) u of [] \<Rightarrow> False | c # _ \<Rightarrow> word_or_hyphen c"
    unfolding youtube_shape_def list_ex_iff by blast
  from c obtain c' rest where d: "drop (length p) u = c' # rest" and w: "word_or_hyphen c'"
    by (cases "drop (length p) u") auto
  from p(2) have "take (length p) u = p" by (simp add: startsWith_def)
  with d have "u = p @ c' # rest" by (metis append_take_drop_id)
  with youtube_shape_prefix [OF p(1) w] show ?thesis by simp
qed

text \<open>
  C5 on the code.  The extension rules hold as stated (\<open>isImageUrl_spec\<close>,
  \<open>isVideoUrl_spec\<close>), and the matches are taken from left to right
  (\<open>match_urlPattern_in_order\<close>), and every watch or share URL is accepted
  (\<open>youtube_shape_accepted\<close>).  The exclusion of the rest does not hold: the pattern of
  \<open>isYouTubeUrl\<close> is tested anywhere in the string, so \<open>https://notyoutube.com/x\<close>, which
  is neither a watch nor a share URL of YouTube, is put in the media list as \<open>youtube\<close>
  where the specification excludes it.  And a match that is no URL is not excluded: the
  note with an image and \<open>http://[\<close> gets no media list at all.
\<close>

theorem lookalike_classified_youtube:
  "match_urlPattern (ev_content lookalike_event) = [js ''https://notyoutube.com/x'']
   \<and> URL_pathname (platform_stub (descriptor None None)) (js ''https://notyoutube.com/x'')
       = Some (js ''/x'')
   \<and> classify (js ''/x'') (js ''https://notyoutube.com/x'') = None
   \<and> extractMedia (platform_stub (descriptor None None)) lookalike_event
       = Inr [\<lparr>media_type = youtube, url = js ''https://notyoutube.com/x''\<rparr>]
   \<and> match_urlPattern (ev_content image_and_malformed_event)
       = [js ''https://e.com/a.png'', js ''http://['']
   \<and> classify (js ''/a.png'') (js ''https://e.com/a.png'') = Some image
   \<and> extractMedia (platform_stub (descriptor None None)) image_and_malformed_event
       = Inl (TypeError (js ''Invalid URL''))"
proof -
  have m1: "match_urlPattern (ev_content lookalike_event) = [js ''https://notyoutube.com/x'']"
    by code_simp
  have p1: "URL_pathname (platform_stub (descriptor None None)) (js ''https://notyoutube.com/x'')
       = Some (js ''/x'')"
    by code_simp
  have c1: "classify (js ''/x'') (js ''https://notyoutube.com/x'') = None"
    by code_simp
  have y1: "isYouTubeUrl (js ''https://notyoutube.com/x'')"
    by code_simp
  have e1: "extension_of_path (js ''/x'') = None"
    by code_simp
  have x1: "extractMedia (platform_stub (descriptor None None)) lookalike_event
       = Inr [\<lparr>media_type = youtube, url = js ''https://notyoutube.com/x''\<rparr>]"
    by (simp add: extractMedia_def m1 isImageUrl_spec [OF p1] isVideoUrl_spec [OF p1] e1 y1)
  have m2: "match_urlPattern (ev_content image_and_malformed_event)
       = [js ''https://e.com/a.png'', js ''http://['']"
    by code_simp
  have p2: "URL_pathname (platform_stub (descriptor None None)) (js ''http://['') = None"
    by code_simp
  have c2: "classify (js ''/a.png'') (js ''https://e.com/a.png'') = Some image"
    by code_simp
  have x2: "extractMedia (platform_stub (descriptor None None)) image_and_malformed_event
       = Inl (TypeError (js ''Invalid URL''))"
    using extractMedia_loop_malformed [of "js ''http://[''" "[js ''https://e.com/a.png'', js ''http://['']"
        "platform_stub (descriptor None None)" "[]"] p2
    by (simp add: extractMedia_def m2)
  from m1 p1 c1 x1 m2 c2 x2 show ?thesis by simp
qed

text \<open>
  C7 on the code.  The text of \<open>malformed_event\<close> holds \<open>http://[\<close>, which the URL
  pattern matches and which is no URL.  \<open>getUrlExtension\<close> throws the \<open>TypeError\<close> of the
  \<open>URL\<close> constructor, nothing catches it, and the assembly of the note is rejected with it
  right after the profile was fetched.
\<close>

theorem malformed_url_aborts_assembly:
  "match_urlPattern (ev_content malformed_event) = [js ''http://['']
   \<and> URL_pathname (platform_stub (descriptor None None)) (js ''http://['') = None
   \<and> getUrlExtension (platform_stub (descriptor None None)) (js ''http://['')
       = Inl (TypeError (js ''Invalid URL''))
   \<and> extractMedia (platform_stub (descriptor None None)) malformed_event
       = Inl (TypeError (js ''Invalid URL''))
   \<and> createNoteFromEvent services_stub (platform_stub (descriptor None None)) malformed_event 0 []
       = (Rejected (TypeError (js ''Invalid URL'')), [RepositoryFetchProfile valid_npub])"
proof -
  have m: "match_urlPattern (ev_content malformed_event) = [js ''http://['']"
    by code_simp
  have p: "URL_pathname (platform_stub (descriptor None None)) (js ''http://['') = None"
    by code_simp
  have g: "getUrlExtension (platform_stub (descriptor None None)) (js ''http://['')
       = Inl (TypeError (js ''Invalid URL''))"
    by (simp add: getUrlExtension_def p)
  have e: "extractMedia (platform_stub (descriptor None None)) malformed_event
       = Inl (TypeError (js ''Invalid URL''))"
    by (simp add: extractMedia_def m isImageUrl_def g)
  have f: "fetchProfile services_stub (npub (ev_author malformed_event)) [] = Resolved (Some (js ''{}''))"
    by (simp add: services_stub_def)
  have a: "npub (ev_author malformed_event) = valid_npub"
    by (simp add: malformed_event_def text_event_def alice_def)
  from createNoteFromEvent_extractMedia_fails [OF f e, of 0] m p g e a show ?thesis by simp
qed


lemma count_reaction_two_units:
  "trim (ev_content r) = [a, b] \<Longrightarrow> a \<noteq> 0x3A \<or> b \<noteq> 0x3A \<Longrightarrow> count_reaction P r st = st"
  by (cases st) (auto simp: count_reaction_def js_def startsWith_def endsWith_def)


text \<open>
  C3 on the code.  A reaction whose content is the thumbs-up emoji U+1F44D is two code
  units long, so \<open>content.length === 1\<close> fails whatever \<open>\p{Emoji}\<close> says: the reaction
  is counted nowhere.
\<close>

theorem thumbs_up_not_counted:
  "createNoteReactionsFromEvent thumbs_up_only P reply_reply_event []
     = (Resolved \<lparr>likesCount = 0, repostsCount = 0, zapsAmount = 0, customReactions = Map.empty\<rparr>,
        [FetchEvents Reaction (js ''reply2''), FetchEvents Repost (js ''reply2''),
         CalculateZapsAmount (js ''reply2'')])"
proof -
  have t: "trim [0xD83D, 0xDC4D] = [0xD83D, 0xDC4D]"
    by (simp add: trim_def isWhiteSpace_def)
  have n: "[0xD83D, 0xDC4D] \<noteq> js ''+''" "\<not> startsWith [0xD83D, 0xDC4D] (js '':'')"
    by (simp_all add: js_def startsWith_def)
  have "count_reaction P (text_event (js ''r6'') [0xD83D, 0xDC4D] []) (0, Map.empty) = (0, Map.empty)"
    by (simp add: count_reaction_def text_event_def t n)
  then show ?thesis
    by (simp add: createNoteReactionsFromEvent_def async_defs thumbs_up_only_def
          reply_reply_event_def text_event_def Reaction_def Repost_def)
qed









end
